theory Spec2Isabelle
  imports Complex_Main
begin

section \<open>The LLM relay of \<^verbatim>\<open>llm-proxy/server.js\<close>\<close>

text \<open>
  The server has one route, \<^verbatim>\<open>POST /proxy/llm\<close>. Its handler reads \<^verbatim>\<open>model\<close> and
  \<^verbatim>\<open>messages\<close> from the parsed request body, calls \<^verbatim>\<open>fetch\<close> on the configured
  upstream with the API key in the \<^verbatim>\<open>Authorization\<close> header, and answers the caller with
  the upstream's JSON, with an envelope around the upstream's error text, or with a
  500 envelope when anything in the \<^verbatim>\<open>try\<close> block throws.

  The handler is modelled as a function from the configuration, the upstream (what
  \<^verbatim>\<open>fetch\<close> yields for a request) and the request body to the list of effects it performs,
  in program order: console lines, the \<^verbatim>\<open>fetch\<close> call and the responses handed to Express.
  What Express, \<^verbatim>\<open>fetch\<close> and the console do inside (parsing the inbound body,
  writing the response, the network) is not part of the handler and is taken as given.
  Resource limits of the runtime (memory, stack depth) are not modelled.
\<close>

subsection \<open>JSON values and JavaScript truthiness\<close>

text \<open>
  A parsed number is an IEEE double. \<^verbatim>\<open>JSON.parse\<close> yields a finite double, given here
  by its value (every finite double is a rational; positive zero is \<open>Finite 0\<close>),
  negative zero for \<^verbatim>\<open>-0\<close>, or an infinity for a literal beyond the range of doubles
  such as \<^verbatim>\<open>1e400\<close>. It never yields NaN. Rounding a literal to the nearest double is done
  by the parser, before the handler runs.
\<close>

datatype double = Finite rat | NegZero | Infinity | NegInfinity

text \<open>What \<^verbatim>\<open>JSON.parse\<close> produces. An object is the list of its own properties.\<close>

datatype json =
    JNull
  | JBool bool
  | JNum double
  | JStr string
  | JArr "json list"
  | JObj "(string \<times> json) list"

text \<open>JavaScript's \<^verbatim>\<open>ToBoolean\<close> on a parsed JSON value.\<close>

fun truthy :: "json \<Rightarrow> bool" where
  "truthy JNull = False"
| "truthy (JBool b) = b"
| "truthy (JNum n) = (n \<noteq> Finite 0 \<and> n \<noteq> NegZero)"
| "truthy (JStr s) = (s \<noteq> [])"
| "truthy (JArr xs) = True"
| "truthy (JObj kvs) = True"

text \<open>
  The expression \<^verbatim>\<open>v || d\<close> where \<^verbatim>\<open>v\<close> is a variable bound by destructuring:
  \<open>None\<close> is \<^verbatim>\<open>undefined\<close> (falsy), \<open>Some x\<close> a parsed value.
\<close>

definition js_or :: "json option \<Rightarrow> json \<Rightarrow> json" where
  "js_or v d = (case v of None \<Rightarrow> d | Some x \<Rightarrow> if truthy x then x else d)"

text \<open>
  Reading a property of a parsed object. When a JSON text repeats a key,
  \<^verbatim>\<open>JSON.parse\<close> keeps the last value, so the last entry wins.
\<close>

definition own_property :: "(string \<times> json) list \<Rightarrow> string \<Rightarrow> json option" where
  "own_property kvs k = map_of (rev kvs) k"

text \<open>
  \<^verbatim>\<open>JSON.stringify(v)\<close>, given as the JSON value that the written text reads back as.
  The text of a finite number reads back as the same double; negative zero is written
  \<^verbatim>\<open>0\<close>; an infinity is written \<^verbatim>\<open>null\<close>. Strings, booleans and \<^verbatim>\<open>null\<close> are written as
  they are, arrays and objects element by element.
\<close>

fun stringify_number :: "double \<Rightarrow> json" where
  "stringify_number (Finite q) = JNum (Finite q)"
| "stringify_number NegZero = JNum (Finite 0)"
| "stringify_number Infinity = JNull"
| "stringify_number NegInfinity = JNull"

fun stringified :: "json \<Rightarrow> json" where
  "stringified (JNum n) = stringify_number n"
| "stringified (JArr xs) = JArr (map stringified xs)"
| "stringified (JObj kvs) = JObj (map (\<lambda>(k, v). (k, stringified v)) kvs)"
| "stringified v = v"

text \<open>The values without an infinity or a negative zero inside.\<close>

fun plain_number :: "double \<Rightarrow> bool" where
  "plain_number (Finite q) = True"
| "plain_number n = False"

fun plain :: "json \<Rightarrow> bool" where
  "plain (JNum n) = plain_number n"
| "plain (JArr xs) = list_all plain xs"
| "plain (JObj kvs) = list_all (\<lambda>(k, v). plain v) kvs"
| "plain v = True"

text \<open>
  \<^verbatim>\<open>const { model, messages } = req.body\<close>. The route is fed by \<^verbatim>\<open>express.json()\<close>,
  which hands over the parsed JSON object of the request. The body is \<open>None\<close> when
  \<^verbatim>\<open>req.body\<close> is \<^verbatim>\<open>undefined\<close>. Destructuring \<^verbatim>\<open>undefined\<close> or \<^verbatim>\<open>null\<close> throws a
  TypeError (the message is the engine's); an object yields its two properties; arrays
  and primitives have neither property.
\<close>

fun destructure :: "json option \<Rightarrow> string + (json option \<times> json option)" where
  "destructure None =
     Inl ''Cannot destructure property 'model' of 'req.body' as it is undefined.''"
| "destructure (Some JNull) =
     Inl ''Cannot destructure property 'model' of 'req.body' as it is null.''"
| "destructure (Some (JObj kvs)) = Inr (own_property kvs ''model'', own_property kvs ''messages'')"
| "destructure (Some v) = Inr (None, None)"

subsection \<open>Configuration, outbound request, upstream response\<close>

text \<open>The three module-level constants, read once from the environment at start.\<close>

record RelayConfig =
  LLM_API_URL :: string
  LLM_API_KEY :: string
  PORT :: nat

text \<open>
  The arguments of the \<^verbatim>\<open>fetch\<close> call. \<open>req_body\<close> is the text made by
  \<^verbatim>\<open>JSON.stringify\<close>, given as the JSON value it reads back as.
\<close>

record outbound =
  req_url :: string
  req_method :: string
  req_headers :: "(string \<times> string) list"
  req_body :: json

definition fetch_init :: "RelayConfig \<Rightarrow> json option \<Rightarrow> json option \<Rightarrow> outbound" where
  "fetch_init cfg model messages =
     \<lparr> req_url = LLM_API_URL cfg,
       req_method = ''POST'',
       req_headers = [(''Authorization'', ''Bearer '' @ LLM_API_KEY cfg),
                      (''Content-Type'', ''application/json'')],
       req_body = stringified (JObj [(''model'', js_or model (JStr ''gpt-4o'')),
                                     (''messages'', js_or messages (JArr []))]) \<rparr>"

text \<open>
  What the handler can observe of a \<^verbatim>\<open>Response\<close>: its status, and what
  \<^verbatim>\<open>response.text()\<close> and \<^verbatim>\<open>response.json()\<close> settle to. \<open>Inl m\<close> is a rejection with
  an error whose \<^verbatim>\<open>message\<close> is \<open>m\<close> (a broken body stream, a body that is not JSON).
\<close>

record Response =
  status :: nat
  text_result :: "string + string"
  json_result :: "string + json"

text \<open>\<^verbatim>\<open>response.ok\<close>: the status is in the range 200 to 299.\<close>

definition ok :: "Response \<Rightarrow> bool" where
  "ok response = (200 \<le> status response \<and> status response \<le> 299)"

text \<open>
  \<^verbatim>\<open>await fetch(...)\<close> either rejects (DNS, connect, TLS, an unusable URL) with an error
  carrying a message, or resolves to a response.
\<close>

datatype fetch_outcome = Rejected string | Resolved Response

subsection \<open>Effects\<close>

text \<open>
  \<open>ConsoleLog\<close> and \<open>ConsoleError\<close> carry the arguments of the console call.
  \<open>Send s v\<close> is \<^verbatim>\<open>res.status(s).json(v)\<close>.
\<close>

datatype event =
    ConsoleLog "json list"
  | ConsoleError "json list"
  | Fetch outbound
  | Send nat json

text \<open>
  \<^verbatim>\<open>res.json(v)\<close> without a call of \<^verbatim>\<open>res.status\<close>: the status code keeps its initial
  value 200.
\<close>

definition res_json :: "json \<Rightarrow> event" where
  "res_json v = Send 200 v"

subsection \<open>The handler\<close>

text \<open>
  The body of the \<^verbatim>\<open>try\<close> block: the effects performed, and the message of the error
  thrown, if one was. A thrown error ends the block at the statement that threw.
\<close>

definition try_block ::
  "RelayConfig \<Rightarrow> (outbound \<Rightarrow> fetch_outcome) \<Rightarrow> json option \<Rightarrow> event list \<times> string option" where
  "try_block cfg fetch body =
     (case destructure body of
        Inl message \<Rightarrow> ([], Some message)
      | Inr (model, messages) \<Rightarrow>
          (let line = ConsoleLog [JStr ''LLM proxy: request for model:'',
                                  js_or model (JStr ''(default)'')];
               init = fetch_init cfg model messages
           in case fetch init of
                Rejected message \<Rightarrow> ([line, Fetch init], Some message)
              | Resolved response \<Rightarrow>
                  if \<not> ok response then
                    (case text_result response of
                       Inl message \<Rightarrow> ([line, Fetch init], Some message)
                     | Inr errorText \<Rightarrow>
                         ([line, Fetch init,
                           ConsoleError [JStr ''LLM proxy: API error'',
                                         JNum (Finite (of_nat (status response))), JStr errorText],
                           Send (status response)
                             (JObj [(''error'', JStr ''Duke LLM API error''),
                                    (''status'', JNum (Finite (of_nat (status response)))),
                                    (''details'', JStr errorText)])],
                          None))
                  else
                    (case json_result response of
                       Inl message \<Rightarrow> ([line, Fetch init], Some message)
                     | Inr dat \<Rightarrow> ([line, Fetch init, res_json dat], None))))"

text \<open>The whole handler: the \<^verbatim>\<open>try\<close> block, then the \<^verbatim>\<open>catch\<close> block if it threw.\<close>

definition handler ::
  "RelayConfig \<Rightarrow> (outbound \<Rightarrow> fetch_outcome) \<Rightarrow> json option \<Rightarrow> event list" where
  "handler cfg fetch body =
     (case try_block cfg fetch body of
        (evs, None) \<Rightarrow> evs
      | (evs, Some message) \<Rightarrow>
          evs @ [ConsoleError [JStr ''LLM proxy error:'', JStr message],
                 Send 500 (JObj [(''error'', JStr ''Failed to reach Duke LLM API''),
                                 (''details'', JStr message)])])"

subsection \<open>Observations of a run\<close>

text \<open>The responses handed to the caller, the outbound requests, and the console lines.\<close>

fun sent :: "event list \<Rightarrow> (nat \<times> json) list" where
  "sent [] = []"
| "sent (Send s v # es) = (s, v) # sent es"
| "sent (e # es) = sent es"

fun fetched :: "event list \<Rightarrow> outbound list" where
  "fetched [] = []"
| "fetched (Fetch r # es) = r # fetched es"
| "fetched (e # es) = fetched es"

fun is_console :: "event \<Rightarrow> bool" where
  "is_console (ConsoleLog args) = True"
| "is_console (ConsoleError args) = True"
| "is_console e = False"

fun is_send :: "event \<Rightarrow> bool" where
  "is_send (Send s v) = True"
| "is_send e = False"

text \<open>A field of a JSON object, for reading the outbound body.\<close>

fun field :: "string \<Rightarrow> json \<Rightarrow> json option" where
  "field k (JObj kvs) = own_property kvs k"
| "field k v = None"

definition outbound_field :: "string \<Rightarrow> event list \<Rightarrow> json option list" where
  "outbound_field k tr = map (\<lambda>r. field k (req_body r)) (fetched tr)"

text \<open>What the upstream answered to the outbound requests of a run.\<close>

definition replies :: "(outbound \<Rightarrow> fetch_outcome) \<Rightarrow> event list \<Rightarrow> fetch_outcome list" where
  "replies upstream tr = map upstream (fetched tr)"

text \<open>The effects before and after the forwarding attempt, and the console lines among them.\<close>

fun before_fetch :: "event list \<Rightarrow> event list" where
  "before_fetch [] = []"
| "before_fetch (Fetch r # es) = []"
| "before_fetch (e # es) = e # before_fetch es"

fun after_fetch :: "event list \<Rightarrow> event list" where
  "after_fetch [] = []"
| "after_fetch (Fetch r # es) = es"
| "after_fetch (e # es) = after_fetch es"

definition console :: "event list \<Rightarrow> event list" where
  "console tr = filter is_console tr"

subsection \<open>Concrete configurations, bodies and upstreams\<close>

definition example_cfg :: RelayConfig where
  "example_cfg =
     \<lparr> LLM_API_URL = ''https://litellm.oit.duke.edu/v1/chat/completions'',
       LLM_API_KEY = ''sk-example-key'',
       PORT = 3001 \<rparr>"

definition other_cfg :: RelayConfig where
  "other_cfg =
     \<lparr> LLM_API_URL = ''https://litellm.oit.duke.edu/v1/chat/completions'',
       LLM_API_KEY = ''sk-another-key'',
       PORT = 3001 \<rparr>"

definition hi_message :: json where
  "hi_message = JObj [(''role'', JStr ''user''), (''content'', JStr ''hi'')]"

text \<open>\<^verbatim>\<open>{model: "gpt-4o-mini", messages: [{role: "user", content: "hi"}]}\<close>\<close>

definition chat_body :: "json option" where
  "chat_body = Some (JObj [(''model'', JStr ''gpt-4o-mini''), (''messages'', JArr [hi_message])])"

text \<open>\<^verbatim>\<open>{}\<close>\<close>

definition empty_body :: "json option" where
  "empty_body = Some (JObj [])"

text \<open>\<^verbatim>\<open>{model: "", messages: null}\<close>\<close>

definition falsy_body :: "json option" where
  "falsy_body = Some (JObj [(''model'', JStr []), (''messages'', JNull)])"

text \<open>\<^verbatim>\<open>{model: "gpt-4o-mini", messages: "hello", temperature: 1}\<close>\<close>

definition odd_body :: "json option" where
  "odd_body = Some (JObj [(''model'', JStr ''gpt-4o-mini''), (''messages'', JStr ''hello''),
                          (''temperature'', JNum (Finite 1))])"

text \<open>\<^verbatim>\<open>{model: 1e400, messages: [-0, 1]}\<close>, as parsed.\<close>

definition overflow_body :: "json option" where
  "overflow_body = Some (JObj [(''model'', JNum Infinity),
                               (''messages'', JArr [JNum NegZero, JNum (Finite 1)])])"

definition completion :: json where
  "completion = JObj [(''choices'', JArr [])]"

definition response_200 :: Response where
  \<open>response_200 =
     \<lparr> status = 200, text_result = Inr ''{"choices":[]}'', json_result = Inr completion \<rparr>\<close>

definition response_201 :: Response where
  \<open>response_201 =
     \<lparr> status = 201, text_result = Inr ''{"choices":[]}'', json_result = Inr completion \<rparr>\<close>

definition response_429 :: Response where
  "response_429 =
     \<lparr> status = 429, text_result = Inr ''rate limited'',
       json_result = Inl ''Unexpected token r in JSON at position 0'' \<rparr>"

definition response_html :: Response where
  "response_html =
     \<lparr> status = 200, text_result = Inr ''<html></html>'',
       json_result = Inl ''Unexpected token < in JSON at position 0'' \<rparr>"

definition response_broken :: Response where
  "response_broken =
     \<lparr> status = 502, text_result = Inl ''terminated'', json_result = Inl ''terminated'' \<rparr>"

definition upstream_ok :: "outbound \<Rightarrow> fetch_outcome" where
  "upstream_ok r = Resolved response_200"

definition upstream_created :: "outbound \<Rightarrow> fetch_outcome" where
  "upstream_created r = Resolved response_201"

definition upstream_limited :: "outbound \<Rightarrow> fetch_outcome" where
  "upstream_limited r = Resolved response_429"

definition upstream_html :: "outbound \<Rightarrow> fetch_outcome" where
  "upstream_html r = Resolved response_html"

definition upstream_broken :: "outbound \<Rightarrow> fetch_outcome" where
  "upstream_broken r = Resolved response_broken"

definition upstream_down :: "outbound \<Rightarrow> fetch_outcome" where
  "upstream_down r = Rejected ''fetch failed''"

subsection \<open>A runtime that checks header values\<close>

text \<open>
  Node's \<^verbatim>\<open>fetch\<close> builds the header list before anything is sent. It strips leading
  and trailing whitespace from each value and refuses a value that still holds a NUL,
  a line feed or a carriage return, with a TypeError whose message quotes the value.
  \<open>node_fetch network\<close> is that check in front of a network.
\<close>

definition http_whitespace :: "char \<Rightarrow> bool" where
  "http_whitespace c = (c = CHR 0x09 \<or> c = CHR 0x0A \<or> c = CHR 0x0D \<or> c = CHR 0x20)"

definition normalize_value :: "string \<Rightarrow> string" where
  "normalize_value v = rev (dropWhile http_whitespace (rev (dropWhile http_whitespace v)))"

definition valid_header_value :: "string \<Rightarrow> bool" where
  "valid_header_value v = (CHR 0x00 \<notin> set v \<and> CHR 0x0A \<notin> set v \<and> CHR 0x0D \<notin> set v)"

fun first_invalid :: "(string \<times> string) list \<Rightarrow> string option" where
  "first_invalid [] = None"
| "first_invalid ((k, v) # hs) =
     (if valid_header_value (normalize_value v) then first_invalid hs
      else Some (normalize_value v))"

definition node_fetch :: "(outbound \<Rightarrow> fetch_outcome) \<Rightarrow> outbound \<Rightarrow> fetch_outcome" where
  \<open>node_fetch network r =
     (case first_invalid (req_headers r) of
        None \<Rightarrow> network r
      | Some v \<Rightarrow> Rejected (''Headers.append: "'' @ v @ ''" is an invalid header value.''))\<close>

text \<open>A key with a line break inside, as left by a wrapped line in an environment file.\<close>

definition broken_key_cfg :: RelayConfig where
  "broken_key_cfg =
     \<lparr> LLM_API_URL = ''https://litellm.oit.duke.edu/v1/chat/completions'',
       LLM_API_KEY = ''sk-example'' @ [CHR 0x0A] @ ''key'',
       PORT = 3001 \<rparr>"

section \<open>Properties\<close>

subsection \<open>The paths through the handler\<close>

lemmas example_defs =
  example_cfg_def other_cfg_def hi_message_def chat_body_def empty_body_def falsy_body_def
  odd_body_def overflow_body_def completion_def response_200_def response_201_def response_429_def
  response_html_def response_broken_def upstream_ok_def upstream_created_def
  upstream_limited_def upstream_html_def upstream_broken_def upstream_down_def

lemmas run_defs =
  handler_def try_block_def fetch_init_def js_or_def own_property_def ok_def res_json_def
  replies_def console_def outbound_field_def

lemmas node_fetch_defs =
  node_fetch_def http_whitespace_def normalize_value_def valid_header_value_def
  broken_key_cfg_def

lemma fetched_handler:
  "fetched (handler cfg upstream body) =
     (case destructure body of
        Inl m \<Rightarrow> []
      | Inr (model, messages) \<Rightarrow> [fetch_init cfg model messages])"
  by (simp add: handler_def try_block_def res_json_def Let_def
           split: sum.splits prod.splits fetch_outcome.splits)

lemma replies_single:
  assumes "replies upstream (handler cfg upstream body) = [x]"
  obtains model messages where "destructure body = Inr (model, messages)"
    and "upstream (fetch_init cfg model messages) = x"
  using assms by (auto simp: replies_def fetched_handler split: sum.splits)

lemma handler_destructure_throws:
  "destructure body = Inl m \<Longrightarrow>
   handler cfg upstream body =
     [ConsoleError [JStr ''LLM proxy error:'', JStr m],
      Send 500 (JObj [(''error'', JStr ''Failed to reach Duke LLM API''),
                      (''details'', JStr m)])]"
  by (simp add: handler_def try_block_def)

lemma handler_rejected:
  "destructure body = Inr (model, messages) \<Longrightarrow>
   upstream (fetch_init cfg model messages) = Rejected m \<Longrightarrow>
   handler cfg upstream body =
     [ConsoleLog [JStr ''LLM proxy: request for model:'', js_or model (JStr ''(default)'')],
      Fetch (fetch_init cfg model messages),
      ConsoleError [JStr ''LLM proxy error:'', JStr m],
      Send 500 (JObj [(''error'', JStr ''Failed to reach Duke LLM API''),
                      (''details'', JStr m)])]"
  by (simp add: handler_def try_block_def)

lemma handler_upstream_error:
  "destructure body = Inr (model, messages) \<Longrightarrow>
   upstream (fetch_init cfg model messages) = Resolved response \<Longrightarrow>
   \<not> ok response \<Longrightarrow> text_result response = Inr errorText \<Longrightarrow>
   handler cfg upstream body =
     [ConsoleLog [JStr ''LLM proxy: request for model:'', js_or model (JStr ''(default)'')],
      Fetch (fetch_init cfg model messages),
      ConsoleError [JStr ''LLM proxy: API error'', JNum (Finite (of_nat (status response))),
                    JStr errorText],
      Send (status response)
        (JObj [(''error'', JStr ''Duke LLM API error''),
               (''status'', JNum (Finite (of_nat (status response)))),
               (''details'', JStr errorText)])]"
  by (simp add: handler_def try_block_def)

lemma handler_text_throws:
  "destructure body = Inr (model, messages) \<Longrightarrow>
   upstream (fetch_init cfg model messages) = Resolved response \<Longrightarrow>
   \<not> ok response \<Longrightarrow> text_result response = Inl m \<Longrightarrow>
   handler cfg upstream body =
     [ConsoleLog [JStr ''LLM proxy: request for model:'', js_or model (JStr ''(default)'')],
      Fetch (fetch_init cfg model messages),
      ConsoleError [JStr ''LLM proxy error:'', JStr m],
      Send 500 (JObj [(''error'', JStr ''Failed to reach Duke LLM API''),
                      (''details'', JStr m)])]"
  by (simp add: handler_def try_block_def)

lemma handler_json_throws:
  "destructure body = Inr (model, messages) \<Longrightarrow>
   upstream (fetch_init cfg model messages) = Resolved response \<Longrightarrow>
   ok response \<Longrightarrow> json_result response = Inl m \<Longrightarrow>
   handler cfg upstream body =
     [ConsoleLog [JStr ''LLM proxy: request for model:'', js_or model (JStr ''(default)'')],
      Fetch (fetch_init cfg model messages),
      ConsoleError [JStr ''LLM proxy error:'', JStr m],
      Send 500 (JObj [(''error'', JStr ''Failed to reach Duke LLM API''),
                      (''details'', JStr m)])]"
  by (simp add: handler_def try_block_def)

lemma handler_success:
  "destructure body = Inr (model, messages) \<Longrightarrow>
   upstream (fetch_init cfg model messages) = Resolved response \<Longrightarrow>
   ok response \<Longrightarrow> json_result response = Inr dat \<Longrightarrow>
   handler cfg upstream body =
     [ConsoleLog [JStr ''LLM proxy: request for model:'', js_or model (JStr ''(default)'')],
      Fetch (fetch_init cfg model messages),
      Send 200 dat]"
  by (simp add: handler_def try_block_def res_json_def)

text \<open>
  The caller's view of a run is decided by the body and by what the upstream answered:
  two runs on the same body that got the same answer send the same responses and print
  the same console lines, whatever their configurations.
\<close>

lemma same_reply_same_effects:
  assumes "replies upstream (handler cfg upstream body) = replies upstream' (handler cfg' upstream' body)"
  shows "sent (handler cfg upstream body) = sent (handler cfg' upstream' body)
         \<and> console (handler cfg upstream body) = console (handler cfg' upstream' body)"
proof (cases "destructure body")
  case (Inl m)
  then show ?thesis by (simp add: handler_destructure_throws)
next
  case (Inr p)
  obtain model messages where p: "p = (model, messages)" by (cases p)
  from assms Inr p have same:
    "upstream (fetch_init cfg model messages) = upstream' (fetch_init cfg' model messages)"
    by (simp add: replies_def fetched_handler)
  show ?thesis
    using Inr p same
    by (simp add: handler_def try_block_def res_json_def console_def Let_def
             split: fetch_outcome.splits sum.splits)
qed

lemma own_property_absent: "own_property kvs k = None \<longleftrightarrow> k \<notin> fst ` set kvs"
  by (simp add: own_property_def map_of_eq_None_iff)

lemma outbound_field_model:
  "outbound_field ''model'' (handler cfg upstream (Some (JObj kvs))) =
     [Some (stringified (js_or (own_property kvs ''model'') (JStr ''gpt-4o'')))]"
  by (simp add: outbound_field_def fetched_handler fetch_init_def own_property_def)

lemma outbound_field_messages:
  "outbound_field ''messages'' (handler cfg upstream (Some (JObj kvs))) =
     [Some (stringified (js_or (own_property kvs ''messages'') (JArr [])))]"
  by (simp add: outbound_field_def fetched_handler fetch_init_def own_property_def)

lemma falsy_values: "\<not> truthy v \<longleftrightarrow> v \<in> {JNull, JBool False, JNum (Finite 0), JNum NegZero, JStr ''''}"
  by (cases v) auto

lemma stringified_plain: "plain v \<Longrightarrow> stringified v = v"
proof (induction v)
  case (JNum n)
  then show ?case by (cases n) simp_all
next
  case (JArr xs)
  then show ?case by (simp add: list_all_iff map_idI)
next
  case (JObj kvs)
  then show ?case by (auto simp add: list_all_iff intro!: map_idI)
qed simp_all

lemma destructure_throws_iff:
  "(\<exists>m. destructure body = Inl m) \<longleftrightarrow> body = None \<or> body = Some JNull"
  by (cases body rule: destructure.cases) simp_all

lemma one_response_last:
  "length (sent (handler cfg upstream body)) = 1 \<and> is_send (last (handler cfg upstream body))"
  by (simp add: handler_def try_block_def res_json_def Let_def
           split: sum.splits prod.splits fetch_outcome.splits)

subsection \<open>Credential isolation\<close>

text \<open>
  As long as the upstream's reply is the same, the configuration has no part in what
  the caller sees (lemma \<open>same_reply_same_effects\<close>). But the \<^verbatim>\<open>catch\<close> block sends
  \<^verbatim>\<open>error.message\<close> to the caller, and an error raised by \<^verbatim>\<open>fetch\<close> itself can quote
  what the handler gave it.

  Claim C1: the configured key is never part of a response sent to the caller. The
  handler breaks it. With a key that holds a line break, \<^verbatim>\<open>fetch\<close> refuses the
  \<^verbatim>\<open>Authorization\<close> value and names it in its error; the handler answers 500 with
  that message as \<^verbatim>\<open>details\<close>, so the caller reads the key. With a well-formed key
  the same request on the same network is answered 200.
\<close>

theorem key_in_transport_error_details:
  \<open>sent (handler broken_key_cfg (node_fetch upstream_ok) chat_body) =
     [(500, JObj [(''error'', JStr ''Failed to reach Duke LLM API''),
                  (''details'',
                   JStr (''Headers.append: "Bearer '' @ LLM_API_KEY broken_key_cfg
                         @ ''" is an invalid header value.''))])]
   \<and> sent (handler example_cfg (node_fetch upstream_ok) chat_body) = [(200, completion)]\<close>
  by (simp add: run_defs example_defs node_fetch_defs)

subsection \<open>Success path\<close>

text \<open>
  Claim C2, as stated: on a success status the caller gets the decoded body with the
  upstream's status. It fails for a success status other than 200: the handler calls
  \<^verbatim>\<open>res.json(data)\<close> without setting a status. Here the upstream answers 201 and the
  caller gets 200.
\<close>

theorem success_status_counterexample:
  "replies upstream_created (handler example_cfg upstream_created chat_body) = [Resolved response_201]
   \<and> ok response_201
   \<and> json_result response_201 = Inr completion
   \<and> status response_201 = 201
   \<and> sent (handler example_cfg upstream_created chat_body) = [(200, completion)]
   \<and> sent (handler example_cfg upstream_created chat_body) \<noteq> [(status response_201, completion)]"
  by (simp add: run_defs example_defs)

text \<open>
  Claim C2, amended: when the upstream replies with a success status and a body that
  decodes as JSON, the caller gets exactly that decoded value, with status 200.
\<close>

theorem success_body_unchanged_status_200:
  assumes "replies upstream (handler cfg upstream body) = [Resolved response]"
    and "ok response" and "json_result response = Inr dat"
  shows "sent (handler cfg upstream body) = [(200, dat)]"
proof -
  from assms(1) obtain model messages where
    "destructure body = Inr (model, messages)"
    "upstream (fetch_init cfg model messages) = Resolved response"
    by (rule replies_single)
  then show ?thesis
    using assms(2,3) by (simp add: handler_success)
qed

theorem success_body_unchanged_status_200_witness:
  "replies upstream_ok (handler example_cfg upstream_ok chat_body) = [Resolved response_200]
   \<and> ok response_200
   \<and> json_result response_200 = Inr completion
   \<and> sent (handler example_cfg upstream_ok chat_body) = [(200, completion)]"
proof -
  have h1: "replies upstream_ok (handler example_cfg upstream_ok chat_body) = [Resolved response_200]"
    by (simp add: run_defs example_defs)
  have h2: "ok response_200" by (simp add: ok_def response_200_def)
  have h3: "json_result response_200 = Inr completion" by (simp add: response_200_def)
  from success_body_unchanged_status_200 [OF h1 h2 h3] h1 h2 h3 show ?thesis by simp
qed

subsection \<open>Upstream errors\<close>

text \<open>
  Claim C3. When the upstream replies with a non-success status \<open>S\<close> and body text
  \<open>T\<close>, the caller gets status \<open>S\<close> and the body
  \<^verbatim>\<open>{error: "Duke LLM API error", status: S, details: T}\<close>.
\<close>

theorem upstream_error_envelope:
  assumes "replies upstream (handler cfg upstream body) = [Resolved response]"
    and "\<not> ok response" and "text_result response = Inr errorText"
  shows "sent (handler cfg upstream body) =
           [(status response,
             JObj [(''error'', JStr ''Duke LLM API error''),
                   (''status'', JNum (Finite (of_nat (status response)))),
                   (''details'', JStr errorText)])]"
proof -
  from assms(1) obtain model messages where
    "destructure body = Inr (model, messages)"
    "upstream (fetch_init cfg model messages) = Resolved response"
    by (rule replies_single)
  then show ?thesis
    using assms(2,3) by (simp add: handler_upstream_error)
qed

theorem upstream_error_envelope_witness:
  "replies upstream_limited (handler example_cfg upstream_limited chat_body) = [Resolved response_429]
   \<and> \<not> ok response_429
   \<and> text_result response_429 = Inr ''rate limited''
   \<and> sent (handler example_cfg upstream_limited chat_body) =
       [(429, JObj [(''error'', JStr ''Duke LLM API error''),
                    (''status'', JNum (Finite 429)),
                    (''details'', JStr ''rate limited'')])]"
proof -
  have h1: "replies upstream_limited (handler example_cfg upstream_limited chat_body) = [Resolved response_429]"
    by (simp add: run_defs example_defs)
  have h2: "\<not> ok response_429" by (simp add: ok_def response_429_def)
  have h3: "text_result response_429 = Inr ''rate limited''" by (simp add: response_429_def)
  have "status response_429 = 429" by (simp add: response_429_def)
  with upstream_error_envelope [OF h1 h2 h3] h1 h2 h3 show ?thesis by simp
qed

subsection \<open>Transport errors\<close>

text \<open>
  Claim C4. When the outbound call rejects, or the upstream replies with a success
  status and a body that does not decode as JSON, the caller gets status 500 and the
  body \<^verbatim>\<open>{error: "Failed to reach Duke LLM API", details: m}\<close>, \<open>m\<close> the message of
  the local failure; that envelope is the only response of the run.
\<close>

theorem transport_error_envelope:
  assumes "replies upstream (handler cfg upstream body) = [Rejected m]
           \<or> (replies upstream (handler cfg upstream body) = [Resolved response]
               \<and> ok response \<and> json_result response = Inl m)"
  shows "sent (handler cfg upstream body) =
           [(500, JObj [(''error'', JStr ''Failed to reach Duke LLM API''),
                        (''details'', JStr m)])]"
  using assms
proof
  assume "replies upstream (handler cfg upstream body) = [Rejected m]"
  then obtain model messages where
    "destructure body = Inr (model, messages)"
    "upstream (fetch_init cfg model messages) = Rejected m"
    by (rule replies_single)
  then show ?thesis by (simp add: handler_rejected)
next
  assume a: "replies upstream (handler cfg upstream body) = [Resolved response]
               \<and> ok response \<and> json_result response = Inl m"
  then obtain model messages where
    "destructure body = Inr (model, messages)"
    "upstream (fetch_init cfg model messages) = Resolved response"
    by (blast elim: replies_single)
  then show ?thesis using a by (simp add: handler_json_throws)
qed

theorem transport_error_envelope_witness:
  "replies upstream_down (handler example_cfg upstream_down chat_body) = [Rejected ''fetch failed'']
   \<and> sent (handler example_cfg upstream_down chat_body) =
       [(500, JObj [(''error'', JStr ''Failed to reach Duke LLM API''),
                    (''details'', JStr ''fetch failed'')])]
   \<and> replies upstream_html (handler example_cfg upstream_html chat_body) = [Resolved response_html]
   \<and> ok response_html
   \<and> json_result response_html = Inl ''Unexpected token < in JSON at position 0''
   \<and> sent (handler example_cfg upstream_html chat_body) =
       [(500, JObj [(''error'', JStr ''Failed to reach Duke LLM API''),
                    (''details'', JStr ''Unexpected token < in JSON at position 0'')])]"
proof -
  have h1: "replies upstream_down (handler example_cfg upstream_down chat_body) = [Rejected ''fetch failed'']"
    by (simp add: run_defs example_defs)
  have h2: "replies upstream_html (handler example_cfg upstream_html chat_body) = [Resolved response_html]
            \<and> ok response_html
            \<and> json_result response_html = Inl ''Unexpected token < in JSON at position 0''"
    by (simp add: run_defs example_defs)
  from transport_error_envelope [of upstream_down example_cfg chat_body "''fetch failed''", OF disjI1, OF h1]
       transport_error_envelope [of upstream_html example_cfg chat_body _ response_html, OF disjI2, OF h2]
       h1 h2
  show ?thesis by simp
qed

subsection \<open>Defaults of the outbound body\<close>

text \<open>
  Claim C5. For a body without a \<^verbatim>\<open>model\<close> field the outbound body's model is
  \<^verbatim>\<open>"gpt-4o"\<close>; for a body without a \<^verbatim>\<open>messages\<close> field the outbound body's messages
  are the empty array. Each default is applied whatever the other field is: the outbound
  model is decided by the inbound \<^verbatim>\<open>model\<close> field alone, and the outbound messages by
  the inbound \<^verbatim>\<open>messages\<close> field alone.
\<close>

theorem absent_fields_defaulted:
  "(''model'' \<notin> fst ` set kvs \<longrightarrow>
      outbound_field ''model'' (handler cfg upstream (Some (JObj kvs))) = [Some (JStr ''gpt-4o'')])
   \<and> (''messages'' \<notin> fst ` set kvs \<longrightarrow>
      outbound_field ''messages'' (handler cfg upstream (Some (JObj kvs))) = [Some (JArr [])])
   \<and> (own_property kvs ''model'' = own_property kvs' ''model'' \<longrightarrow>
      outbound_field ''model'' (handler cfg upstream (Some (JObj kvs))) =
      outbound_field ''model'' (handler cfg' upstream' (Some (JObj kvs'))))
   \<and> (own_property kvs ''messages'' = own_property kvs' ''messages'' \<longrightarrow>
      outbound_field ''messages'' (handler cfg upstream (Some (JObj kvs))) =
      outbound_field ''messages'' (handler cfg' upstream' (Some (JObj kvs'))))"
proof (intro conjI impI)
  assume "''model'' \<notin> fst ` set kvs"
  then have "own_property kvs ''model'' = None" by (simp add: own_property_absent)
  then show "outbound_field ''model'' (handler cfg upstream (Some (JObj kvs))) = [Some (JStr ''gpt-4o'')]"
    by (simp add: outbound_field_model js_or_def)
next
  assume "''messages'' \<notin> fst ` set kvs"
  then have "own_property kvs ''messages'' = None" by (simp add: own_property_absent)
  then show "outbound_field ''messages'' (handler cfg upstream (Some (JObj kvs))) = [Some (JArr [])]"
    by (simp add: outbound_field_messages js_or_def)
next
  assume "own_property kvs ''model'' = own_property kvs' ''model''"
  then show "outbound_field ''model'' (handler cfg upstream (Some (JObj kvs))) =
             outbound_field ''model'' (handler cfg' upstream' (Some (JObj kvs')))"
    by (simp add: outbound_field_model)
next
  assume "own_property kvs ''messages'' = own_property kvs' ''messages''"
  then show "outbound_field ''messages'' (handler cfg upstream (Some (JObj kvs))) =
             outbound_field ''messages'' (handler cfg' upstream' (Some (JObj kvs')))"
    by (simp add: outbound_field_messages)
qed

theorem absent_fields_defaulted_witness:
  "''model'' \<notin> fst ` set [(''messages'', JArr [hi_message])]
   \<and> outbound_field ''model''
        (handler example_cfg upstream_ok (Some (JObj [(''messages'', JArr [hi_message])]))) =
       [Some (JStr ''gpt-4o'')]
   \<and> ''messages'' \<notin> fst ` set [(''model'', JStr ''gpt-4o-mini'')]
   \<and> outbound_field ''messages''
        (handler example_cfg upstream_ok (Some (JObj [(''model'', JStr ''gpt-4o-mini'')]))) =
       [Some (JArr [])]
   \<and> own_property [(''model'', JStr ''gpt-4o-mini'')] ''model'' =
       own_property [(''model'', JStr ''gpt-4o-mini''), (''messages'', JArr [hi_message])] ''model''
   \<and> outbound_field ''model''
        (handler example_cfg upstream_ok (Some (JObj [(''model'', JStr ''gpt-4o-mini'')]))) =
       outbound_field ''model''
        (handler other_cfg upstream_down
           (Some (JObj [(''model'', JStr ''gpt-4o-mini''), (''messages'', JArr [hi_message])])))
   \<and> own_property [(''messages'', JArr [hi_message])] ''messages'' =
       own_property [(''model'', JStr ''gpt-4o-mini''), (''messages'', JArr [hi_message])] ''messages''
   \<and> outbound_field ''messages''
        (handler example_cfg upstream_ok (Some (JObj [(''messages'', JArr [hi_message])]))) =
       outbound_field ''messages''
        (handler other_cfg upstream_down
           (Some (JObj [(''model'', JStr ''gpt-4o-mini''), (''messages'', JArr [hi_message])])))"
proof -
  have a: "''model'' \<notin> fst ` set [(''messages'', JArr [hi_message])]" by simp
  have b: "''messages'' \<notin> fst ` set [(''model'', JStr ''gpt-4o-mini'')]" by simp
  have c: "own_property [(''model'', JStr ''gpt-4o-mini'')] ''model'' =
           own_property [(''model'', JStr ''gpt-4o-mini''), (''messages'', JArr [hi_message])] ''model''"
    by (simp add: own_property_def)
  have d: "own_property [(''messages'', JArr [hi_message])] ''messages'' =
           own_property [(''model'', JStr ''gpt-4o-mini''), (''messages'', JArr [hi_message])] ''messages''"
    by (simp add: own_property_def)
  from absent_fields_defaulted
         [of "[(''messages'', JArr [hi_message])]" example_cfg upstream_ok]
  have 1: "outbound_field ''model''
             (handler example_cfg upstream_ok (Some (JObj [(''messages'', JArr [hi_message])]))) =
           [Some (JStr ''gpt-4o'')]"
    using a by blast
  from absent_fields_defaulted
         [of "[(''model'', JStr ''gpt-4o-mini'')]" example_cfg upstream_ok]
  have 2: "outbound_field ''messages''
             (handler example_cfg upstream_ok (Some (JObj [(''model'', JStr ''gpt-4o-mini'')]))) =
           [Some (JArr [])]"
    using b by blast
  from absent_fields_defaulted
         [of "[(''model'', JStr ''gpt-4o-mini'')]" example_cfg upstream_ok
             "[(''model'', JStr ''gpt-4o-mini''), (''messages'', JArr [hi_message])]"
             other_cfg upstream_down]
  have 3: "outbound_field ''model''
             (handler example_cfg upstream_ok (Some (JObj [(''model'', JStr ''gpt-4o-mini'')]))) =
           outbound_field ''model''
             (handler other_cfg upstream_down
                (Some (JObj [(''model'', JStr ''gpt-4o-mini''), (''messages'', JArr [hi_message])])))"
    using c by blast
  from absent_fields_defaulted
         [of "[(''messages'', JArr [hi_message])]" example_cfg upstream_ok
             "[(''model'', JStr ''gpt-4o-mini''), (''messages'', JArr [hi_message])]"
             other_cfg upstream_down]
  have 4: "outbound_field ''messages''
             (handler example_cfg upstream_ok (Some (JObj [(''messages'', JArr [hi_message])]))) =
           outbound_field ''messages''
             (handler other_cfg upstream_down
                (Some (JObj [(''model'', JStr ''gpt-4o-mini''), (''messages'', JArr [hi_message])])))"
    using d by blast
  from a b c d 1 2 3 4 show ?thesis by blast
qed

text \<open>
  Claim C9. A \<^verbatim>\<open>model\<close> field that is present but falsy is replaced by
  \<^verbatim>\<open>"gpt-4o"\<close>, and a \<^verbatim>\<open>messages\<close> field that is present but falsy by the empty array:
  the default applies to every falsy value, not only to a missing field. The falsy
  values of JSON are \<^verbatim>\<open>null\<close>, \<^verbatim>\<open>false\<close>, \<^verbatim>\<open>0\<close> and the empty string.
\<close>

theorem falsy_fields_defaulted:
  "(own_property kvs ''model'' = Some v \<and> \<not> truthy v \<longrightarrow>
      outbound_field ''model'' (handler cfg upstream (Some (JObj kvs))) = [Some (JStr ''gpt-4o'')])
   \<and> (own_property kvs ''messages'' = Some w \<and> \<not> truthy w \<longrightarrow>
      outbound_field ''messages'' (handler cfg upstream (Some (JObj kvs))) = [Some (JArr [])])
   \<and> (\<not> truthy u \<longleftrightarrow> u \<in> {JNull, JBool False, JNum (Finite 0), JNum NegZero, JStr ''''})"
proof (intro conjI impI)
  assume "own_property kvs ''model'' = Some v \<and> \<not> truthy v"
  then show "outbound_field ''model'' (handler cfg upstream (Some (JObj kvs))) = [Some (JStr ''gpt-4o'')]"
    by (simp add: outbound_field_model js_or_def)
next
  assume "own_property kvs ''messages'' = Some w \<and> \<not> truthy w"
  then show "outbound_field ''messages'' (handler cfg upstream (Some (JObj kvs))) = [Some (JArr [])]"
    by (simp add: outbound_field_messages js_or_def)
next
  show "\<not> truthy u \<longleftrightarrow> u \<in> {JNull, JBool False, JNum (Finite 0), JNum NegZero, JStr ''''}"
    by (rule falsy_values)
qed

theorem falsy_fields_defaulted_witness:
  "own_property [(''model'', JStr ''''), (''messages'', JNull)] ''model'' = Some (JStr '''')
   \<and> \<not> truthy (JStr '''')
   \<and> own_property [(''model'', JStr ''''), (''messages'', JNull)] ''messages'' = Some JNull
   \<and> \<not> truthy JNull
   \<and> outbound_field ''model''
        (handler example_cfg upstream_ok (Some (JObj [(''model'', JStr ''''), (''messages'', JNull)]))) =
       [Some (JStr ''gpt-4o'')]
   \<and> outbound_field ''messages''
        (handler example_cfg upstream_ok (Some (JObj [(''model'', JStr ''''), (''messages'', JNull)]))) =
       [Some (JArr [])]
   \<and> \<not> truthy (JBool False) \<and> \<not> truthy (JNum (Finite 0))"
proof -
  have a: "own_property [(''model'', JStr ''''), (''messages'', JNull)] ''model'' = Some (JStr '''')
           \<and> \<not> truthy (JStr '''')"
    by (simp add: own_property_def)
  have b: "own_property [(''model'', JStr ''''), (''messages'', JNull)] ''messages'' = Some JNull
           \<and> \<not> truthy JNull"
    by (simp add: own_property_def)
  from falsy_fields_defaulted
         [of "[(''model'', JStr ''''), (''messages'', JNull)]" "JStr ''''" example_cfg upstream_ok JNull]
       a b
  show ?thesis by simp
qed

subsection \<open>Forwarding of supplied fields\<close>

text \<open>
  Claim C6, as stated: a body that supplies both \<^verbatim>\<open>model\<close> and \<^verbatim>\<open>messages\<close> has both
  forwarded as given. It fails when a supplied value is falsy: for
  \<^verbatim>\<open>{model: "", messages: null}\<close> the outbound body is
  \<^verbatim>\<open>{model: "gpt-4o", messages: []}\<close>.
\<close>

theorem supplied_fields_counterexample:
  "own_property [(''model'', JStr ''''), (''messages'', JNull)] ''model'' = Some (JStr '''')
   \<and> own_property [(''model'', JStr ''''), (''messages'', JNull)] ''messages'' = Some JNull
   \<and> map req_body (fetched (handler example_cfg upstream_ok
                               (Some (JObj [(''model'', JStr ''''), (''messages'', JNull)])))) =
       [JObj [(''model'', JStr ''gpt-4o''), (''messages'', JArr [])]]
   \<and> map req_body (fetched (handler example_cfg upstream_ok
                               (Some (JObj [(''model'', JStr ''''), (''messages'', JNull)])))) \<noteq>
       [JObj [(''model'', JStr ''''), (''messages'', JNull)]]"
  by (simp add: run_defs example_defs)

text \<open>
  Claim C6, amended: a body that supplies a truthy \<^verbatim>\<open>model\<close> and a truthy
  \<^verbatim>\<open>messages\<close> has the outbound body \<^verbatim>\<open>{model, messages}\<close> holding the two supplied
  values as \<^verbatim>\<open>JSON.stringify\<close> writes them, and no other field of the inbound body.
  Supplied values without an infinity or a negative zero inside go out exactly as they
  were parsed, whatever their shape; an infinity goes out as \<^verbatim>\<open>null\<close> and a negative
  zero as \<^verbatim>\<open>0\<close>.
\<close>

theorem truthy_fields_forwarded:
  assumes "own_property kvs ''model'' = Some m" and "truthy m"
    and "own_property kvs ''messages'' = Some ms" and "truthy ms"
  shows "map req_body (fetched (handler cfg upstream (Some (JObj kvs)))) =
           [JObj [(''model'', stringified m), (''messages'', stringified ms)]]
         \<and> (plain m \<and> plain ms \<longrightarrow>
            map req_body (fetched (handler cfg upstream (Some (JObj kvs)))) =
              [JObj [(''model'', m), (''messages'', ms)]])"
  using assms by (simp add: fetched_handler fetch_init_def js_or_def stringified_plain)

theorem truthy_fields_forwarded_witness:
  "own_property [(''model'', JStr ''gpt-4o-mini''), (''messages'', JStr ''hello''),
                 (''temperature'', JNum (Finite 1))] ''model'' = Some (JStr ''gpt-4o-mini'')
   \<and> truthy (JStr ''gpt-4o-mini'')
   \<and> own_property [(''model'', JStr ''gpt-4o-mini''), (''messages'', JStr ''hello''),
                   (''temperature'', JNum (Finite 1))] ''messages'' = Some (JStr ''hello'')
   \<and> truthy (JStr ''hello'')
   \<and> plain (JStr ''gpt-4o-mini'') \<and> plain (JStr ''hello'')
   \<and> map req_body (fetched (handler example_cfg upstream_ok
        (Some (JObj [(''model'', JStr ''gpt-4o-mini''), (''messages'', JStr ''hello''),
                     (''temperature'', JNum (Finite 1))])))) =
       [JObj [(''model'', JStr ''gpt-4o-mini''), (''messages'', JStr ''hello'')]]
   \<and> own_property [(''model'', JNum Infinity),
                   (''messages'', JArr [JNum NegZero, JNum (Finite 1)])] ''model'' =
       Some (JNum Infinity)
   \<and> truthy (JNum Infinity)
   \<and> own_property [(''model'', JNum Infinity),
                   (''messages'', JArr [JNum NegZero, JNum (Finite 1)])] ''messages'' =
       Some (JArr [JNum NegZero, JNum (Finite 1)])
   \<and> truthy (JArr [JNum NegZero, JNum (Finite 1)])
   \<and> map req_body (fetched (handler example_cfg upstream_ok
        (Some (JObj [(''model'', JNum Infinity),
                     (''messages'', JArr [JNum NegZero, JNum (Finite 1)])])))) =
       [JObj [(''model'', JNull), (''messages'', JArr [JNum (Finite 0), JNum (Finite 1)])]]"
proof -
  have a: "own_property [(''model'', JStr ''gpt-4o-mini''), (''messages'', JStr ''hello''),
                 (''temperature'', JNum (Finite 1))] ''model'' = Some (JStr ''gpt-4o-mini'')"
    by (simp add: own_property_def)
  have b: "truthy (JStr ''gpt-4o-mini'')" by simp
  have c: "own_property [(''model'', JStr ''gpt-4o-mini''), (''messages'', JStr ''hello''),
                   (''temperature'', JNum (Finite 1))] ''messages'' = Some (JStr ''hello'')"
    by (simp add: own_property_def)
  have d: "truthy (JStr ''hello'')" by simp
  have e: "plain (JStr ''gpt-4o-mini'') \<and> plain (JStr ''hello'')" by simp
  have a': "own_property [(''model'', JNum Infinity),
                   (''messages'', JArr [JNum NegZero, JNum (Finite 1)])] ''model'' =
              Some (JNum Infinity)"
    by (simp add: own_property_def)
  have b': "truthy (JNum Infinity)" by simp
  have c': "own_property [(''model'', JNum Infinity),
                   (''messages'', JArr [JNum NegZero, JNum (Finite 1)])] ''messages'' =
              Some (JArr [JNum NegZero, JNum (Finite 1)])"
    by (simp add: own_property_def)
  have d': "truthy (JArr [JNum NegZero, JNum (Finite 1)])" by simp
  have 1: "map req_body (fetched (handler example_cfg upstream_ok
        (Some (JObj [(''model'', JStr ''gpt-4o-mini''), (''messages'', JStr ''hello''),
                     (''temperature'', JNum (Finite 1))])))) =
       [JObj [(''model'', JStr ''gpt-4o-mini''), (''messages'', JStr ''hello'')]]"
    using truthy_fields_forwarded [OF a b c d, of example_cfg upstream_ok] e by blast
  have 2: "map req_body (fetched (handler example_cfg upstream_ok
        (Some (JObj [(''model'', JNum Infinity),
                     (''messages'', JArr [JNum NegZero, JNum (Finite 1)])])))) =
       [JObj [(''model'', JNull), (''messages'', JArr [JNum (Finite 0), JNum (Finite 1)])]]"
    using truthy_fields_forwarded [OF a' b' c' d', of example_cfg upstream_ok] by simp
  from a b c d e a' b' c' d' 1 2 show ?thesis by blast
qed

subsection \<open>The outbound request\<close>

text \<open>
  Claim C7, as stated: every inbound request makes the relay issue exactly one outbound
  request. It fails for a request that reaches the handler with \<^verbatim>\<open>req.body\<close>
  undefined: the destructuring throws before \<^verbatim>\<open>fetch\<close> is called, and the caller gets
  the 500 envelope without any outbound request.
\<close>

theorem no_outbound_request_counterexample:
  "fetched (handler example_cfg upstream_ok None) = []
   \<and> length (fetched (handler example_cfg upstream_ok None)) \<noteq> 1
   \<and> map fst (sent (handler example_cfg upstream_ok None)) = [500]"
  by (simp add: run_defs example_defs)

text \<open>
  Claim C7, amended: a request whose \<^verbatim>\<open>req.body\<close> is neither undefined nor
  \<^verbatim>\<open>null\<close> makes the relay issue exactly one outbound request: to the configured
  upstream URL, with method POST, an \<^verbatim>\<open>Authorization\<close> header made of \<^verbatim>\<open>Bearer\<close> and
  the configured key, and a \<^verbatim>\<open>Content-Type\<close> header \<^verbatim>\<open>application/json\<close>, whatever the
  upstream does. A request whose \<^verbatim>\<open>req.body\<close> is undefined or \<^verbatim>\<open>null\<close> makes it issue
  none. No request makes it issue a second one: nothing is retried.
\<close>

theorem one_outbound_request:
  "(body \<noteq> None \<and> body \<noteq> Some JNull \<longrightarrow>
      length (fetched (handler cfg upstream body)) = 1
      \<and> map req_url (fetched (handler cfg upstream body)) = [LLM_API_URL cfg]
      \<and> map req_method (fetched (handler cfg upstream body)) = [''POST'']
      \<and> map req_headers (fetched (handler cfg upstream body)) =
          [[(''Authorization'', ''Bearer '' @ LLM_API_KEY cfg),
            (''Content-Type'', ''application/json'')]])
   \<and> (body = None \<or> body = Some JNull \<longrightarrow> fetched (handler cfg upstream body) = [])
   \<and> length (fetched (handler cfg upstream body)) \<le> 1"
proof (cases "destructure body")
  case (Inl m)
  then have "body = None \<or> body = Some JNull"
    using destructure_throws_iff [of body] by blast
  with Inl show ?thesis by (auto simp add: fetched_handler)
next
  case (Inr p)
  then have "\<not> (body = None \<or> body = Some JNull)"
    using destructure_throws_iff [of body] by auto
  with Inr show ?thesis
    by (cases p) (simp add: fetched_handler fetch_init_def)
qed

theorem one_outbound_request_witness:
  "chat_body \<noteq> None \<and> chat_body \<noteq> Some JNull
   \<and> length (fetched (handler example_cfg upstream_down chat_body)) = 1
   \<and> map req_url (fetched (handler example_cfg upstream_down chat_body)) =
       [''https://litellm.oit.duke.edu/v1/chat/completions'']
   \<and> map req_method (fetched (handler example_cfg upstream_down chat_body)) = [''POST'']
   \<and> map req_headers (fetched (handler example_cfg upstream_down chat_body)) =
       [[(''Authorization'', ''Bearer sk-example-key''),
         (''Content-Type'', ''application/json'')]]
   \<and> fetched (handler example_cfg upstream_down None) = []
   \<and> length (fetched (handler example_cfg upstream_down None)) \<le> 1"
proof -
  have a: "chat_body \<noteq> None \<and> chat_body \<noteq> Some JNull" by (simp add: chat_body_def)
  have k: "LLM_API_URL example_cfg = ''https://litellm.oit.duke.edu/v1/chat/completions''
           \<and> LLM_API_KEY example_cfg = ''sk-example-key''"
    by (simp add: example_cfg_def)
  from one_outbound_request [of chat_body example_cfg upstream_down] a k
  have 1: "length (fetched (handler example_cfg upstream_down chat_body)) = 1
   \<and> map req_url (fetched (handler example_cfg upstream_down chat_body)) =
       [''https://litellm.oit.duke.edu/v1/chat/completions'']
   \<and> map req_method (fetched (handler example_cfg upstream_down chat_body)) = [''POST'']
   \<and> map req_headers (fetched (handler example_cfg upstream_down chat_body)) =
       [[(''Authorization'', ''Bearer sk-example-key''),
         (''Content-Type'', ''application/json'')]]"
    by simp
  from one_outbound_request [of None example_cfg upstream_down]
  have 2: "fetched (handler example_cfg upstream_down None) = []
           \<and> length (fetched (handler example_cfg upstream_down None)) \<le> 1"
    by simp
  from a 1 2 show ?thesis by blast
qed

subsection \<open>Console lines\<close>

text \<open>
  Claim C8, as stated: a console line is printed before and after every forwarding
  attempt. It fails on the success path, which prints nothing after the attempt: here
  the upstream answers 200 with JSON, and the only effect after the \<^verbatim>\<open>fetch\<close> is
  the response.
\<close>

theorem log_after_attempt_counterexample:
  "replies upstream_ok (handler example_cfg upstream_ok chat_body) = [Resolved response_200]
   \<and> after_fetch (handler example_cfg upstream_ok chat_body) = [Send 200 completion]
   \<and> console (after_fetch (handler example_cfg upstream_ok chat_body)) = []"
  by (simp add: run_defs example_defs)

text \<open>
  Claim C8, amended: for a request with a JSON object as body, the only effect before
  the forwarding attempt is one console line naming the requested model, or
  \<^verbatim>\<open>(default)\<close> when the model is missing or falsy. After the attempt the relay prints
  one line when the attempt failed (the upstream's status and body text for an upstream
  error, the message of the error for a failed call or an unreadable body) and none
  when it succeeded. Printing never stops the handling: the run ends with its one
  response.
\<close>

theorem console_lines:
  "before_fetch (handler cfg upstream (Some (JObj kvs))) =
     [ConsoleLog [JStr ''LLM proxy: request for model:'',
                  js_or (own_property kvs ''model'') (JStr ''(default)'')]]
   \<and> (replies upstream (handler cfg upstream (Some (JObj kvs))) = [Resolved response]
        \<and> ok response \<and> json_result response = Inr dat \<longrightarrow>
      console (after_fetch (handler cfg upstream (Some (JObj kvs)))) = [])
   \<and> (replies upstream (handler cfg upstream (Some (JObj kvs))) = [Resolved response]
        \<and> \<not> ok response \<and> text_result response = Inr errorText \<longrightarrow>
      console (after_fetch (handler cfg upstream (Some (JObj kvs)))) =
        [ConsoleError [JStr ''LLM proxy: API error'', JNum (Finite (of_nat (status response))),
                       JStr errorText]])
   \<and> (replies upstream (handler cfg upstream (Some (JObj kvs))) = [Rejected m]
        \<or> replies upstream (handler cfg upstream (Some (JObj kvs))) = [Resolved response]
           \<and> (ok response \<and> json_result response = Inl m
               \<or> \<not> ok response \<and> text_result response = Inl m) \<longrightarrow>
      console (after_fetch (handler cfg upstream (Some (JObj kvs)))) =
        [ConsoleError [JStr ''LLM proxy error:'', JStr m]])
   \<and> length (sent (handler cfg upstream (Some (JObj kvs)))) = 1
   \<and> is_send (last (handler cfg upstream (Some (JObj kvs))))"
proof -
  let ?body = "Some (JObj kvs)"
  let ?model = "own_property kvs ''model''"
  let ?messages = "own_property kvs ''messages''"
  let ?H = "handler cfg upstream ?body"
  have d: "destructure ?body = Inr (?model, ?messages)" by simp
  have r: "replies upstream ?H = [upstream (fetch_init cfg ?model ?messages)]"
    by (simp add: replies_def fetched_handler)
  have 1: "before_fetch ?H = [ConsoleLog [JStr ''LLM proxy: request for model:'',
                                          js_or ?model (JStr ''(default)'')]]"
    by (simp add: handler_def try_block_def res_json_def Let_def
             split: fetch_outcome.splits sum.splits)
  have 2: "console (after_fetch ?H) = []"
    if "replies upstream ?H = [Resolved response] \<and> ok response \<and> json_result response = Inr dat"
    using that r by (simp add: handler_success [OF d] console_def)
  have 3: "console (after_fetch ?H) =
             [ConsoleError [JStr ''LLM proxy: API error'', JNum (Finite (of_nat (status response))),
                            JStr errorText]]"
    if "replies upstream ?H = [Resolved response] \<and> \<not> ok response
        \<and> text_result response = Inr errorText"
    using that r by (simp add: handler_upstream_error [OF d] console_def)
  have 4: "console (after_fetch ?H) = [ConsoleError [JStr ''LLM proxy error:'', JStr m]]"
    if "replies upstream ?H = [Rejected m]
        \<or> replies upstream ?H = [Resolved response]
           \<and> (ok response \<and> json_result response = Inl m
               \<or> \<not> ok response \<and> text_result response = Inl m)"
    using that r
    by (auto simp add: handler_rejected [OF d] handler_json_throws [OF d]
          handler_text_throws [OF d] console_def)
  from 1 2 3 4 one_response_last [of cfg upstream ?body] show ?thesis by blast
qed

theorem console_lines_witness:
  "before_fetch (handler example_cfg upstream_ok (Some (JObj []))) =
     [ConsoleLog [JStr ''LLM proxy: request for model:'', JStr ''(default)'']]
   \<and> replies upstream_ok (handler example_cfg upstream_ok (Some (JObj []))) = [Resolved response_200]
   \<and> ok response_200 \<and> json_result response_200 = Inr completion
   \<and> console (after_fetch (handler example_cfg upstream_ok (Some (JObj [])))) = []
   \<and> replies upstream_limited (handler example_cfg upstream_limited (Some (JObj []))) =
       [Resolved response_429]
   \<and> \<not> ok response_429 \<and> text_result response_429 = Inr ''rate limited''
   \<and> console (after_fetch (handler example_cfg upstream_limited (Some (JObj [])))) =
       [ConsoleError [JStr ''LLM proxy: API error'', JNum (Finite 429), JStr ''rate limited'']]
   \<and> replies upstream_down (handler example_cfg upstream_down (Some (JObj []))) =
       [Rejected ''fetch failed'']
   \<and> console (after_fetch (handler example_cfg upstream_down (Some (JObj [])))) =
       [ConsoleError [JStr ''LLM proxy error:'', JStr ''fetch failed'']]
   \<and> length (sent (handler example_cfg upstream_ok (Some (JObj [])))) = 1
   \<and> is_send (last (handler example_cfg upstream_ok (Some (JObj []))))"
proof -
  have a: "replies upstream_ok (handler example_cfg upstream_ok (Some (JObj []))) = [Resolved response_200]
           \<and> ok response_200 \<and> json_result response_200 = Inr completion"
    by (simp add: run_defs example_defs)
  have b: "replies upstream_limited (handler example_cfg upstream_limited (Some (JObj []))) =
             [Resolved response_429]
           \<and> \<not> ok response_429 \<and> text_result response_429 = Inr ''rate limited''"
    by (simp add: run_defs example_defs)
  have c: "replies upstream_down (handler example_cfg upstream_down (Some (JObj []))) =
             [Rejected ''fetch failed'']"
    by (simp add: run_defs example_defs)
  have s: "status response_429 = 429" by (simp add: response_429_def)
  have o: "own_property [] ''model'' = None" by (simp add: own_property_def)
  note t1 = console_lines [of example_cfg upstream_ok "[]" response_200 completion]
  note t2 = console_lines [of example_cfg upstream_limited "[]" response_429 _ "''rate limited''"]
  note t3 = console_lines [of example_cfg upstream_down "[]" _ _ _ "''fetch failed''"]
  have 1: "before_fetch (handler example_cfg upstream_ok (Some (JObj []))) =
             [ConsoleLog [JStr ''LLM proxy: request for model:'', JStr ''(default)'']]"
    using t1 o by (simp add: js_or_def)
  have 2: "console (after_fetch (handler example_cfg upstream_ok (Some (JObj [])))) = []"
    using t1 a by blast
  have 3: "console (after_fetch (handler example_cfg upstream_limited (Some (JObj [])))) =
             [ConsoleError [JStr ''LLM proxy: API error'', JNum (Finite 429), JStr ''rate limited'']]"
    using t2 b s by simp
  have 4: "console (after_fetch (handler example_cfg upstream_down (Some (JObj [])))) =
             [ConsoleError [JStr ''LLM proxy error:'', JStr ''fetch failed'']]"
    using t3 c by blast
  have 5: "length (sent (handler example_cfg upstream_ok (Some (JObj [])))) = 1
           \<and> is_send (last (handler example_cfg upstream_ok (Some (JObj []))))"
    using t1 by blast
  from a b c 1 2 3 4 5 show ?thesis by blast
qed

subsection \<open>One response per request\<close>

text \<open>
  Claim C10. Every run sends exactly one response, and the response is the last effect
  of the run, whatever the body and the upstream are. After the upstream-error envelope
  nothing more happens: the effects after the \<^verbatim>\<open>fetch\<close> are the error line and that
  envelope, so neither the success path nor the \<^verbatim>\<open>catch\<close> block runs. A run that
  sends the transport-error envelope sends nothing else. The three kinds of response
  exclude each other.
\<close>

theorem exactly_one_response:
  "length (sent (handler cfg upstream body)) = 1
   \<and> is_send (last (handler cfg upstream body))
   \<and> (replies upstream (handler cfg upstream body) = [Resolved response]
        \<and> \<not> ok response \<and> text_result response = Inr errorText \<longrightarrow>
      after_fetch (handler cfg upstream body) =
        [ConsoleError [JStr ''LLM proxy: API error'', JNum (Finite (of_nat (status response))),
                       JStr errorText],
         Send (status response)
           (JObj [(''error'', JStr ''Duke LLM API error''),
                  (''status'', JNum (Finite (of_nat (status response)))),
                  (''details'', JStr errorText)])])
   \<and> ((500, JObj [(''error'', JStr ''Failed to reach Duke LLM API''), (''details'', JStr m)])
          \<in> set (sent (handler cfg upstream body)) \<longrightarrow>
      sent (handler cfg upstream body) =
        [(500, JObj [(''error'', JStr ''Failed to reach Duke LLM API''), (''details'', JStr m)])])"
proof (intro conjI impI)
  show one: "length (sent (handler cfg upstream body)) = 1"
    using one_response_last by blast
  show "is_send (last (handler cfg upstream body))"
    using one_response_last by blast
  assume "(500, JObj [(''error'', JStr ''Failed to reach Duke LLM API''), (''details'', JStr m)])
            \<in> set (sent (handler cfg upstream body))"
  with one show "sent (handler cfg upstream body) =
        [(500, JObj [(''error'', JStr ''Failed to reach Duke LLM API''), (''details'', JStr m)])]"
    by (cases "sent (handler cfg upstream body)") auto
next
  assume a: "replies upstream (handler cfg upstream body) = [Resolved response]
        \<and> \<not> ok response \<and> text_result response = Inr errorText"
  then obtain model messages where
    "destructure body = Inr (model, messages)"
    "upstream (fetch_init cfg model messages) = Resolved response"
    by (blast elim: replies_single)
  then show "after_fetch (handler cfg upstream body) =
        [ConsoleError [JStr ''LLM proxy: API error'', JNum (Finite (of_nat (status response))),
                       JStr errorText],
         Send (status response)
           (JObj [(''error'', JStr ''Duke LLM API error''),
                  (''status'', JNum (Finite (of_nat (status response)))),
                  (''details'', JStr errorText)])]"
    using a by (simp add: handler_upstream_error)
qed

theorem exactly_one_response_witness:
  "length (sent (handler example_cfg upstream_limited None)) = 1
   \<and> is_send (last (handler example_cfg upstream_limited None))
   \<and> replies upstream_limited (handler example_cfg upstream_limited chat_body) = [Resolved response_429]
   \<and> \<not> ok response_429 \<and> text_result response_429 = Inr ''rate limited''
   \<and> length (sent (handler example_cfg upstream_limited chat_body)) = 1
   \<and> after_fetch (handler example_cfg upstream_limited chat_body) =
       [ConsoleError [JStr ''LLM proxy: API error'', JNum (Finite 429), JStr ''rate limited''],
        Send 429 (JObj [(''error'', JStr ''Duke LLM API error''),
                        (''status'', JNum (Finite 429)),
                        (''details'', JStr ''rate limited'')])]
   \<and> (500, JObj [(''error'', JStr ''Failed to reach Duke LLM API''),
                  (''details'', JStr ''fetch failed'')])
        \<in> set (sent (handler example_cfg upstream_down chat_body))
   \<and> sent (handler example_cfg upstream_down chat_body) =
       [(500, JObj [(''error'', JStr ''Failed to reach Duke LLM API''),
                    (''details'', JStr ''fetch failed'')])]"
proof -
  have a: "replies upstream_limited (handler example_cfg upstream_limited chat_body) = [Resolved response_429]
           \<and> \<not> ok response_429 \<and> text_result response_429 = Inr ''rate limited''"
    by (simp add: run_defs example_defs)
  have b: "(500, JObj [(''error'', JStr ''Failed to reach Duke LLM API''),
                       (''details'', JStr ''fetch failed'')])
             \<in> set (sent (handler example_cfg upstream_down chat_body))"
    by (simp add: run_defs example_defs)
  have s: "status response_429 = 429" by (simp add: response_429_def)
  note t1 = exactly_one_response [of example_cfg upstream_limited None]
  note t2 = exactly_one_response
              [of example_cfg upstream_limited chat_body response_429 "''rate limited''"]
  note t3 = exactly_one_response
              [of example_cfg upstream_down chat_body _ _ "''fetch failed''"]
  have 1: "length (sent (handler example_cfg upstream_limited None)) = 1
           \<and> is_send (last (handler example_cfg upstream_limited None))"
    using t1 by blast
  have 2: "length (sent (handler example_cfg upstream_limited chat_body)) = 1"
    using t2 by blast
  have 3: "after_fetch (handler example_cfg upstream_limited chat_body) =
       [ConsoleError [JStr ''LLM proxy: API error'', JNum (Finite 429), JStr ''rate limited''],
        Send 429 (JObj [(''error'', JStr ''Duke LLM API error''),
                        (''status'', JNum (Finite 429)),
                        (''details'', JStr ''rate limited'')])]"
    using t2 a s by simp
  have 4: "sent (handler example_cfg upstream_down chat_body) =
       [(500, JObj [(''error'', JStr ''Failed to reach Duke LLM API''),
                    (''details'', JStr ''fetch failed'')])]"
    using t3 b by blast
  from a b 1 2 3 4 show ?thesis by blast
qed

end
